theory Spec2Isabelle
  imports Main "HOL-Library.Sublist"
begin

section \<open>JavaScript values and exceptions\<close>

text \<open>
  The relay in \<^verbatim>\<open>src/index.js\<close> handles values of several JavaScript types at the same
  program point (a query parameter, a field of an upstream JSON item, an attribute of a markup
  element), so the model has one datatype of values. Numbers are integers: the only numbers the
  code touches are view counts, and of a number it only asks whether it is zero. Strings are
  lists of 8-bit characters. An object is its list of properties in source order; a later
  binding of a key overrides an earlier one, as \<^verbatim>\<open>JSON.parse\<close> does.
\<close>

datatype jsval =
    Undefined
  | Null
  | Bool bool
  | Num int
  | Str string
  | Arr "jsval list"
  | Obj "(string \<times> jsval) list"

text \<open>
  Every \<^verbatim>\<open>throw\<close> of the source and of its collaborators is a value of this type.
  \<^verbatim>\<open>TypeError\<close> is what the language raises when a value that is not a function is called or
  a property of \<^verbatim>\<open>null\<close>/\<^verbatim>\<open>undefined\<close> is read; the others come from the HTTP client, from
  \<^verbatim>\<open>encodeURIComponent\<close> and from any other library call.
\<close>

datatype error = TypeError | AxiosError | URIError | LibraryError

definition bindE :: "error + 'a \<Rightarrow> ('a \<Rightarrow> error + 'b) \<Rightarrow> error + 'b" where
  "bindE m f = (case m of Inl e \<Rightarrow> Inl e | Inr x \<Rightarrow> f x)"

text \<open>\<^verbatim>\<open>!v\<close> is \<open>\<not> truthy v\<close>.\<close>

fun truthy :: "jsval \<Rightarrow> bool" where
  "truthy Undefined = False"
| "truthy Null = False"
| "truthy (Bool b) = b"
| "truthy (Num n) = (n \<noteq> 0)"
| "truthy (Str s) = (s \<noteq> [])"
| "truthy (Arr xs) = True"
| "truthy (Obj kvs) = True"

text \<open>\<^verbatim>\<open>a || b\<close> on values.\<close>

definition js_or :: "jsval \<Rightarrow> jsval \<Rightarrow> jsval" where
  "js_or a b = (if truthy a then a else b)"

section \<open>Configuration (lines 8--10 and 222--224)\<close>

text \<open>
  \<^verbatim>\<open>process.env\<close> is a map from names to strings. \<^verbatim>\<open>process.env.X || d\<close> yields \<open>d\<close> when the
  variable is unset and also when it is set to the empty string.

  The file holds two texts of the program. The first one (line 10) binds the instance to a
  literal, under the comment that it can be overridden by an environment variable; the second
  one (line 224) reads the variable.
\<close>

type_synonym env = "string \<rightharpoonup> string"

definition PORT :: "env \<Rightarrow> jsval" where
  "PORT env =
     js_or (case env ''PORT'' of None \<Rightarrow> Undefined | Some s \<Rightarrow> Str s) (Num 3000)"

definition INVIDIOUS_INSTANCE_line10 :: "env \<Rightarrow> string" where
  "INVIDIOUS_INSTANCE_line10 env = ''https://lekker.gay''"

definition INVIDIOUS_INSTANCE :: "env \<Rightarrow> string" where
  "INVIDIOUS_INSTANCE env =
     (case env ''INVIDIOUS_INSTANCE'' of
        None \<Rightarrow> ''https://lekker.gay''
      | Some s \<Rightarrow> if s \<noteq> [] then s else ''https://lekker.gay'')"

section \<open>\<^verbatim>\<open>getAbsoluteUrl\<close> (lines 31, 74 and 245)\<close>

text \<open>
  The function closes over the module constant \<^verbatim>\<open>INVIDIOUS_INSTANCE\<close>, here the
  parameter \<open>inst\<close>. \<^verbatim>\<open>path.startsWith\<close> exists on strings only: for any other truthy
  value the property is not a function and the call raises \<^verbatim>\<open>TypeError\<close>.
\<close>

definition startsWith :: "string \<Rightarrow> string \<Rightarrow> bool" where
  "startsWith s p = prefix p s"

fun getAbsoluteUrl :: "string \<Rightarrow> jsval \<Rightarrow> error + jsval" where
  "getAbsoluteUrl inst path =
     (if \<not> truthy path then Inr Null
      else case path of
        Str p \<Rightarrow>
          if startsWith p ''http://'' \<or> startsWith p ''https://'' then Inr (Str p)
          else Inr (Str (inst @ (if startsWith p ''/'' then '''' else ''/'') @ p))
      | _ \<Rightarrow> Inl TypeError)"

section \<open>Markup selections and the two extraction helpers (lines 19--28, 233--242)\<close>

text \<open>
  The markup parser is an external collaborator. A selection (a \<^verbatim>\<open>Cheerio\<close> object) is
  modelled by what the program can observe of it: its \<^verbatim>\<open>length\<close>, its \<^verbatim>\<open>text()\<close>, its
  \<^verbatim>\<open>attr(name)\<close>, what \<^verbatim>\<open>find(selector)\<close> gives on it, and the selections \<^verbatim>\<open>$(element)\<close> that an
  \<^verbatim>\<open>each\<close> loop visits. A loaded document is the function \<^verbatim>\<open>$\<close> that \<^verbatim>\<open>cheerio.load\<close>
  returns.
\<close>

datatype selection =
  Selection (sel_length: nat) (sel_text: string) (sel_attr: "jsval \<Rightarrow> jsval")
            (sel_found: "(string \<times> selection) list") (sel_each: "selection list")

text \<open>
  \<^verbatim>\<open>find\<close> with a selector that matches nothing below the selection gives the empty
  selection; \<open>sel_found\<close> lists the selectors that match something.
\<close>

definition empty_selection :: selection where
  "empty_selection = Selection 0 [] (\<lambda>name. Undefined) [] []"

definition sel_find :: "selection \<Rightarrow> string \<Rightarrow> selection" where
  "sel_find s selector =
     (case map_of (sel_found s) selector of None \<Rightarrow> empty_selection | Some r \<Rightarrow> r)"

type_synonym document = "jsval \<Rightarrow> selection"

text \<open>
  Both helpers are declared with the loaded document as first parameter,
  \<^verbatim>\<open>($, selector)\<close> and \<^verbatim>\<open>($, selector, attr)\<close>, and begin with \<^verbatim>\<open>$(selector)\<close>.
  The first argument is therefore either the function \<^verbatim>\<open>$\<close> or whatever else the caller
  passes. Every caller in the file passes a selection, \<^verbatim>\<open>getAttr($(element), 'href')\<close>: a
  selection is an object, not a function, and calling it raises \<^verbatim>\<open>TypeError\<close>.
\<close>

datatype dollar = CheerioAPI document | Cheerio selection

definition call_dollar :: "dollar \<Rightarrow> jsval \<Rightarrow> error + selection" where
  "call_dollar d selector =
     (case d of CheerioAPI doc \<Rightarrow> Inr (doc selector) | Cheerio s \<Rightarrow> Inl TypeError)"

text \<open>
  \<^verbatim>\<open>trim()\<close> on strings of 8-bit characters: the white space it strips is tab, line feed,
  vertical tab, form feed, carriage return, space and the no-break space U+00A0 (the other
  white space of the language lies above U+00FF).
\<close>

definition is_space :: "char \<Rightarrow> bool" where
  "is_space c =
     (c \<in> set [CHR 0x09, CHR 0x0A, CHR 0x0B, CHR 0x0C, CHR 0x0D, CHR 0x20, CHR 0xA0])"

definition trim :: "string \<Rightarrow> string" where
  "trim s = rev (dropWhile is_space (rev (dropWhile is_space s)))"

text \<open>\<^verbatim>\<open>getText\<close> returns a string or \<^verbatim>\<open>null\<close> (here \<open>None\<close>).\<close>

definition getText :: "dollar \<Rightarrow> jsval \<Rightarrow> error + string option" where
  "getText d selector =
     bindE (call_dollar d selector) (\<lambda>element.
       Inr (if sel_length element \<noteq> 0 then Some (trim (sel_text element)) else None))"

definition getAttr :: "dollar \<Rightarrow> jsval \<Rightarrow> jsval \<Rightarrow> error + jsval" where
  "getAttr d selector attr =
     bindE (call_dollar d selector) (\<lambda>element.
       Inr (if sel_length element \<noteq> 0 then sel_attr element attr else Null))"

definition str_or_null :: "string option \<Rightarrow> jsval" where
  "str_or_null t = (case t of None \<Rightarrow> Null | Some s \<Rightarrow> Str s)"

section \<open>String operations used by the handlers\<close>

text \<open>
  \<^verbatim>\<open>s.split(sep)\<close> for a non-empty separator: \<open>skip\<close> counts the characters of a matched
  separator still to be passed over, \<open>cur\<close> is the current piece, reversed.
\<close>

fun split_go :: "string \<Rightarrow> nat \<Rightarrow> string \<Rightarrow> string \<Rightarrow> string list" where
  "split_go sep skip cur [] = [rev cur]"
| "split_go sep skip cur (c # cs) =
     (if 0 < skip then split_go sep (skip - 1) cur cs
      else if prefix sep (c # cs) then rev cur # split_go sep (length sep - 1) [] cs
      else split_go sep 0 (c # cur) cs)"

definition str_split :: "string \<Rightarrow> string \<Rightarrow> string list" where
  "str_split s sep = split_go sep 0 [] s"

definition at_index :: "string list \<Rightarrow> nat \<Rightarrow> jsval" where
  "at_index xs i = (if i < length xs then Str (xs ! i) else Undefined)"

text \<open>\<^verbatim>\<open>s.includes(pat)\<close> and \<^verbatim>\<open>s.replace(pat, rep)\<close> (first occurrence only).\<close>

fun str_includes :: "string \<Rightarrow> string \<Rightarrow> bool" where
  "str_includes [] pat = (pat = [])"
| "str_includes (c # cs) pat = (prefix pat (c # cs) \<or> str_includes cs pat)"

fun str_replace :: "string \<Rightarrow> string \<Rightarrow> string \<Rightarrow> string" where
  "str_replace [] pat rep = (if pat = [] then rep else [])"
| "str_replace (c # cs) pat rep =
     (if prefix pat (c # cs) then rep @ drop (length pat) (c # cs)
      else c # str_replace cs pat rep)"

section \<open>External collaborators\<close>

text \<open>
  The HTTP client, the markup parser and three built-in conversions are not part of the
  program; the handlers take them as a record of functions, each of which may raise.
  \<^verbatim>\<open>axios.get(url)\<close> yields the \<^verbatim>\<open>data\<close> of the reply or raises (network error, status
  outside 2xx). \<open>toString\<close> is the conversion a template literal applies to an
  interpolated value; \<open>toLocaleString\<close> depends on the locale of the host.
\<close>

record platform =
  axios_get :: "string \<Rightarrow> error + jsval"
  cheerio_load :: "jsval \<Rightarrow> error + document"
  encodeURIComponent :: "jsval \<Rightarrow> error + string"
  toLocaleString :: "jsval \<Rightarrow> error + string"
  toString :: "jsval \<Rightarrow> error + string"

section \<open>Output shapes and responses\<close>

record video_summary =
  title :: jsval
  videoId :: jsval
  thumbnail :: jsval
  author :: jsval
  views :: jsval
  uploadedAt :: jsval
  url :: jsval

text \<open>The second field of a format entry is \<^verbatim>\<open>url\<close> in the source.\<close>

record format_entry =
  format :: string
  format_url :: jsval

record video_info =
  info_title :: jsval
  info_author :: jsval
  info_views :: jsval
  info_uploadedAt :: jsval
  info_description :: jsval
  formats :: "format_entry list"
  invidiousWatchUrl :: string

record comment =
  comment_author :: jsval
  comment_text :: jsval
  comment_time :: jsval
  comment_likes :: jsval

datatype body =
    JsonError string
  | JsonSummaries "video_summary list"
  | JsonInfo video_info
  | JsonComments "comment list"
  | Text string

record response =
  status :: nat
  body :: body

text \<open>
  \<^verbatim>\<open>try { ...; res.json(b) } catch (error) { res.status(500).json({ error: msg }) }\<close>:
  the body of the \<^verbatim>\<open>try\<close> either completes with the value to send or raises.
\<close>

definition try_catch :: "error + body \<Rightarrow> string \<Rightarrow> response" where
  "try_catch r msg =
     (case r of
        Inr b \<Rightarrow> \<lparr>status = 200, body = b\<rparr>
      | Inl e \<Rightarrow> \<lparr>status = 500, body = JsonError msg\<rparr>)"

text \<open>
  \<^verbatim>\<open>selection.each(callback)\<close> with a callback that pushes onto an array: the array is
  threaded through, and the first callback that raises ends the loop.
\<close>

fun each :: "('a \<Rightarrow> 's \<Rightarrow> error + 's) \<Rightarrow> 'a list \<Rightarrow> 's \<Rightarrow> error + 's" where
  "each f [] acc = Inr acc"
| "each f (x # xs) acc = (case f x acc of Inl e \<Rightarrow> Inl e | Inr acc' \<Rightarrow> each f xs acc')"

text \<open>\<^verbatim>\<open>array.map(callback)\<close> with a callback that may raise.\<close>

fun mapE :: "('a \<Rightarrow> error + 'b) \<Rightarrow> 'a list \<Rightarrow> error + 'b list" where
  "mapE f [] = Inr []"
| "mapE f (x # xs) =
     (case f x of Inl e \<Rightarrow> Inl e
      | Inr y \<Rightarrow> (case mapE f xs of Inl e \<Rightarrow> Inl e | Inr ys \<Rightarrow> Inr (y # ys)))"

section \<open>Markup list extraction (lines 50--63, 264--277 and 298--311)\<close>

text \<open>\<^verbatim>\<open>href?.split('v=')[1]\<close>\<close>

definition href_video_id :: "jsval \<Rightarrow> error + jsval" where
  "href_video_id href =
     (case href of
        Undefined \<Rightarrow> Inr Undefined
      | Null \<Rightarrow> Inr Undefined
      | Str s \<Rightarrow> Inr (at_index (str_split s ''v='') 1)
      | _ \<Rightarrow> Inl TypeError)"

text \<open>
  The callback of the loop over \<^verbatim>\<open>.pure-g.loop > .pure-u-1\<close>; the popular handler and the
  markup search handler have the same text.
\<close>

definition video_item :: "string \<Rightarrow> selection \<Rightarrow> video_summary list \<Rightarrow> error + video_summary list"
  where
  \<open>video_item inst element acc =
     bindE (getAttr (Cheerio (sel_find element ''h3 a'')) (Str ''href'') Undefined) (\<lambda>href.
     bindE (href_video_id href) (\<lambda>vid.
       if \<not> truthy vid then Inr acc
       else
         bindE (getText (Cheerio (sel_find element ''h3 a'')) Undefined) (\<lambda>t.
         bindE (getAttr (Cheerio (sel_find element ''img'')) (Str ''src'') Undefined) (\<lambda>th.
         bindE (getText (Cheerio (sel_find element ''.channel-name'')) Undefined) (\<lambda>a.
         bindE (getText (Cheerio (sel_find element ''.stat:contains("views")'')) Undefined) (\<lambda>v.
         bindE (getText (Cheerio (sel_find element ''.stat:contains("ago")'')) Undefined) (\<lambda>u.
         bindE (getAttr (Cheerio (sel_find element ''h3 a'')) (Str ''href'') Undefined) (\<lambda>h.
         bindE (getAbsoluteUrl inst h) (\<lambda>absolute.
           Inr (acc @ [\<lparr>title = str_or_null t, videoId = vid, thumbnail = th,
                        author = str_or_null a, views = str_or_null v,
                        uploadedAt = str_or_null u, url = absolute\<rparr>]))))))))))\<close>

definition video_list :: "string \<Rightarrow> document \<Rightarrow> error + video_summary list" where
  "video_list inst doc =
     each (video_item inst) (sel_each (doc (Str ''.pure-g.loop > .pure-u-1''))) []"

section \<open>Structured search extraction (lines 101--117)\<close>

text \<open>
  Property access \<^verbatim>\<open>v.name\<close> on a value that is neither \<^verbatim>\<open>null\<close> nor \<^verbatim>\<open>undefined\<close>,
  for the names the handler reads (\<^verbatim>\<open>type\<close>, \<^verbatim>\<open>title\<close>, \<^verbatim>\<open>videoId\<close>,
  \<^verbatim>\<open>videoThumbnails\<close>, \<^verbatim>\<open>thumbnail\<close>, \<^verbatim>\<open>author\<close>, \<^verbatim>\<open>viewCount\<close>,
  \<^verbatim>\<open>publishedText\<close>, \<^verbatim>\<open>url\<close>): none of them is defined on strings, arrays, numbers or
  booleans, so only an object can hold them.
\<close>

definition nullish :: "jsval \<Rightarrow> bool" where
  "nullish v = (v = Undefined \<or> v = Null)"

definition get_prop :: "jsval \<Rightarrow> string \<Rightarrow> jsval" where
  "get_prop v name =
     (case v of
        Obj kvs \<Rightarrow> (case map_of (rev kvs) name of None \<Rightarrow> Undefined | Some x \<Rightarrow> x)
      | _ \<Rightarrow> Undefined)"

text \<open>\<^verbatim>\<open>v[0]\<close> on a value that is neither \<^verbatim>\<open>null\<close> nor \<^verbatim>\<open>undefined\<close>.\<close>

definition index0 :: "jsval \<Rightarrow> jsval" where
  "index0 v =
     (case v of
        Arr xs \<Rightarrow> (case xs of [] \<Rightarrow> Undefined | x # rest \<Rightarrow> x)
      | Str s \<Rightarrow> (case s of [] \<Rightarrow> Undefined | c # rest \<Rightarrow> Str [c])
      | Obj kvs \<Rightarrow> get_prop (Obj kvs) ''0''
      | _ \<Rightarrow> Undefined)"

text \<open>\<^verbatim>\<open>item.videoThumbnails?.[0]?.url\<close>\<close>

definition first_thumbnail_url :: "jsval \<Rightarrow> jsval" where
  "first_thumbnail_url item =
     (let vt = get_prop item ''videoThumbnails'' in
      if nullish vt then Undefined
      else let first = index0 vt in
        if nullish first then Undefined else get_prop first ''url'')"

text \<open>
  The callback of \<^verbatim>\<open>data.map\<close>: \<open>None\<close> is the \<^verbatim>\<open>null\<close> it returns for an item whose
  \<^verbatim>\<open>type\<close> is not \<^verbatim>\<open>'video'\<close>. Reading \<^verbatim>\<open>item.type\<close> raises when the item is \<^verbatim>\<open>null\<close>.
\<close>

definition search_item :: "string \<Rightarrow> platform \<Rightarrow> jsval \<Rightarrow> error + video_summary option" where
  "search_item inst plat item =
     (if nullish item then Inl TypeError
      else if get_prop item ''type'' = Str ''video'' then
        bindE (getAbsoluteUrl inst
                 (js_or (first_thumbnail_url item) (get_prop item ''thumbnail''))) (\<lambda>th.
        bindE (if truthy (get_prop item ''viewCount'')
               then bindE (toLocaleString plat (get_prop item ''viewCount''))
                      (\<lambda>n. Inr (Str (n @ '' views'')))
               else Inr Null) (\<lambda>v.
        bindE (toString plat (get_prop item ''videoId'')) (\<lambda>vid.
        bindE (getAbsoluteUrl inst (Str (''/watch?v='' @ vid))) (\<lambda>absolute.
          Inr (Some \<lparr>title = get_prop item ''title'', videoId = get_prop item ''videoId'',
                      thumbnail = th, author = get_prop item ''author'', views = v,
                      uploadedAt = get_prop item ''publishedText'', url = absolute\<rparr>)))))
      else Inr None)"

text \<open>
  \<^verbatim>\<open>data.map(...).filter(item => item !== null)\<close>: only an array has \<^verbatim>\<open>map\<close>; on any
  other reply the call raises.
\<close>

definition searchResults :: "string \<Rightarrow> platform \<Rightarrow> jsval \<Rightarrow> error + video_summary list" where
  "searchResults inst plat data =
     (case data of
        Arr items \<Rightarrow>
          bindE (mapE (search_item inst plat) items) (\<lambda>mapped.
            Inr (map the (filter (\<lambda>item. item \<noteq> None) mapped)))
      | _ \<Rightarrow> Inl TypeError)"

section \<open>Video detail and comment extraction (lines 146--168 and 189--197)\<close>

definition format_item :: "string \<Rightarrow> selection \<Rightarrow> format_entry list \<Rightarrow> error + format_entry list"
  where
  "format_item inst element acc =
     bindE (getAttr (Cheerio element) (Str ''href'') Undefined) (\<lambda>href.
     bindE (getText (Cheerio element) Undefined) (\<lambda>t.
       case t of
         None \<Rightarrow> Inr acc
       | Some txt \<Rightarrow>
           if truthy href \<and> txt \<noteq> [] \<and> str_includes txt ''Download'' then
             bindE (getAbsoluteUrl inst href) (\<lambda>absolute.
               Inr (acc @ [\<lparr>format = str_replace txt ''Download '' [],
                            format_url = absolute\<rparr>]))
           else Inr acc))"

definition videoInfo :: "string \<Rightarrow> document \<Rightarrow> string \<Rightarrow> error + video_info" where
  \<open>videoInfo inst doc watch =
     bindE (each (format_item inst)
              (sel_each (doc (Str ''a.pure-button.pure-button-primary''))) []) (\<lambda>fs.
     bindE (getText (Cheerio (doc (Str ''.video-title''))) Undefined) (\<lambda>t.
     bindE (getText (Cheerio (doc (Str ''.channel-name''))) Undefined) (\<lambda>a.
     bindE (getText (Cheerio (doc (Str ''.stat:contains("views")''))) Undefined) (\<lambda>v.
     bindE (getText (Cheerio (doc (Str ''.stat:contains("ago")''))) Undefined) (\<lambda>u.
     bindE (getText (Cheerio (doc (Str ''#description''))) Undefined) (\<lambda>d.
       Inr \<lparr>info_title = str_or_null t, info_author = str_or_null a,
            info_views = str_or_null v, info_uploadedAt = str_or_null u,
            info_description = str_or_null d, formats = fs,
            invidiousWatchUrl = watch\<rparr>))))))\<close>

definition comment_item :: "selection \<Rightarrow> comment list \<Rightarrow> error + comment list" where
  "comment_item element acc =
     bindE (getText (Cheerio (sel_find element ''.comment-author'')) Undefined) (\<lambda>a.
     bindE (getText (Cheerio (sel_find element ''.comment-content'')) Undefined) (\<lambda>t.
     bindE (getText (Cheerio (sel_find element ''.comment-header .time'')) Undefined) (\<lambda>tm.
     bindE (getText (Cheerio (sel_find element ''.comment-header .likes'')) Undefined) (\<lambda>l.
       Inr (acc @ [\<lparr>comment_author = str_or_null a, comment_text = str_or_null t,
                    comment_time = str_or_null tm, comment_likes = str_or_null l\<rparr>])))))"

definition comments :: "document \<Rightarrow> error + comment list" where
  "comments doc = each comment_item (sel_each (doc (Str ''.comment-wrapper''))) []"

section \<open>The handlers\<close>

text \<open>
  A handler returns the response it sends and the list of URLs it requested from the upstream
  instance. \<^verbatim>\<open>encodeURIComponent\<close> runs inside the \<^verbatim>\<open>try\<close>, before the request is made.
\<close>

definition fetch_document :: "platform \<Rightarrow> string \<Rightarrow> error + document" where
  "fetch_document plat u = bindE (axios_get plat u) (cheerio_load plat)"

definition api_popular :: "string \<Rightarrow> platform \<Rightarrow> response \<times> string list" where
  "api_popular inst plat =
     (let u = inst @ ''/feed/popular'' in
      (try_catch
         (bindE (fetch_document plat u) (\<lambda>doc.
          bindE (video_list inst doc) (\<lambda>popularVideos. Inr (JsonSummaries popularVideos))))
         ''Failed to fetch popular videos'', [u]))"

text \<open>The search handler of line 84, on the JSON search API.\<close>

definition api_search_json :: "string \<Rightarrow> platform \<Rightarrow> jsval \<Rightarrow> response \<times> string list" where
  \<open>api_search_json inst plat q =
     (if \<not> truthy q
      then (\<lparr>status = 400, body = JsonError ''Query parameter "q" is required.''\<rparr>, [])
      else case encodeURIComponent plat q of
        Inl e \<Rightarrow>
          (try_catch (Inl e) ''Failed to fetch search results from Invidious API'', [])
      | Inr enc \<Rightarrow>
          (let invidiousApiUrl = inst @ ''/api/v1/search?q='' @ enc in
           (try_catch
              (bindE (axios_get plat invidiousApiUrl) (\<lambda>data.
               bindE (searchResults inst plat data) (\<lambda>rs. Inr (JsonSummaries rs))))
              ''Failed to fetch search results from Invidious API'', [invidiousApiUrl])))\<close>

text \<open>The search handler of line 286, on the search page.\<close>

definition api_search :: "string \<Rightarrow> platform \<Rightarrow> jsval \<Rightarrow> response \<times> string list" where
  \<open>api_search inst plat q =
     (if \<not> truthy q
      then (\<lparr>status = 400, body = JsonError ''Query parameter "q" is required.''\<rparr>, [])
      else case encodeURIComponent plat q of
        Inl e \<Rightarrow> (try_catch (Inl e) ''Failed to fetch search results'', [])
      | Inr enc \<Rightarrow>
          (let u = inst @ ''/search?q='' @ enc in
           (try_catch
              (bindE (fetch_document plat u) (\<lambda>doc.
               bindE (video_list inst doc) (\<lambda>rs. Inr (JsonSummaries rs))))
              ''Failed to fetch search results'', [u])))\<close>

definition api_video :: "string \<Rightarrow> platform \<Rightarrow> jsval \<Rightarrow> response \<times> string list" where
  "api_video inst plat vid =
     (if \<not> truthy vid
      then (\<lparr>status = 400, body = JsonError ''Video ID is required.''\<rparr>, [])
      else case encodeURIComponent plat vid of
        Inl e \<Rightarrow> (try_catch (Inl e) ''Failed to fetch video information'', [])
      | Inr enc \<Rightarrow>
          (let u = inst @ ''/watch?v='' @ enc in
           (try_catch
              (bindE (fetch_document plat u) (\<lambda>doc.
               bindE (videoInfo inst doc u) (\<lambda>info. Inr (JsonInfo info))))
              ''Failed to fetch video information'', [u])))"

definition api_comments :: "string \<Rightarrow> platform \<Rightarrow> jsval \<Rightarrow> response \<times> string list" where
  "api_comments inst plat vid =
     (if \<not> truthy vid
      then (\<lparr>status = 400, body = JsonError ''Video ID is required.''\<rparr>, [])
      else case encodeURIComponent plat vid of
        Inl e \<Rightarrow> (try_catch (Inl e) ''Failed to fetch comments'', [])
      | Inr enc \<Rightarrow>
          (let u = inst @ ''/comments/'' @ enc in
           (try_catch
              (bindE (fetch_document plat u) (\<lambda>doc.
               bindE (comments doc) (\<lambda>cs. Inr (JsonComments cs))))
              ''Failed to fetch comments'', [u])))"

definition health :: "response \<times> string list" where
  "health = (\<lparr>status = 200, body = Text ''OK''\<rparr>, [])"

text \<open>
  The routes registered with \<^verbatim>\<open>app.get\<close>. A request carries the value of its parameter
  (\<^verbatim>\<open>req.query.q\<close> or \<^verbatim>\<open>req.params.videoId\<close>). \<open>app_first\<close> is the first text of the
  program (lines 1--214, search on the JSON API), \<open>app\<close> the second (lines 215--399).
  As it stands the first text declares \<^verbatim>\<open>const getAbsoluteUrl\<close> twice (lines 31 and 74,
  with the same body); its handlers are modelled one by one, as they are written.
\<close>

datatype request = GetPopular | GetSearch jsval | GetVideo jsval | GetComments jsval | GetHealth

fun app_first :: "string \<Rightarrow> platform \<Rightarrow> request \<Rightarrow> response \<times> string list" where
  "app_first inst plat GetPopular = api_popular inst plat"
| "app_first inst plat (GetSearch q) = api_search_json inst plat q"
| "app_first inst plat (GetVideo vid) = api_video inst plat vid"
| "app_first inst plat (GetComments vid) = api_comments inst plat vid"
| "app_first inst plat GetHealth = health"

fun app :: "string \<Rightarrow> platform \<Rightarrow> request \<Rightarrow> response \<times> string list" where
  "app inst plat GetPopular = api_popular inst plat"
| "app inst plat (GetSearch q) = api_search inst plat q"
| "app inst plat (GetVideo vid) = api_video inst plat vid"
| "app inst plat (GetComments vid) = api_comments inst plat vid"
| "app inst plat GetHealth = health"

section \<open>Sample environments\<close>

text \<open>
  Concrete collaborators on which the handlers can be run. The upstream reply and the parsed
  document are given; the conversions are those of the language on the inputs used below
  (a string of unreserved characters encodes to itself, \<^verbatim>\<open>undefined\<close> and \<^verbatim>\<open>null\<close>
  interpolate as their names, a string is its own locale string, and \<^verbatim>\<open>1234\<close> prints as
  \<^verbatim>\<open>1,234\<close> in an en-US host); on other inputs the sample raises.
\<close>

definition unreserved :: "char \<Rightarrow> bool" where
  "unreserved c =
     (c \<in> set (''ABCDEFGHIJKLMNOPQRSTUVWXYZabcdefghijklmnopqrstuvwxyz0123456789'' @ ''-_.!~*()''))"

definition sample_encode :: "jsval \<Rightarrow> error + string" where
  "sample_encode v =
     (case v of
        Str s \<Rightarrow> if list_all unreserved s then Inr s else Inl LibraryError
      | _ \<Rightarrow> Inl LibraryError)"

definition sample_toString :: "jsval \<Rightarrow> error + string" where
  "sample_toString v =
     (case v of
        Str s \<Rightarrow> Inr s
      | Undefined \<Rightarrow> Inr ''undefined''
      | Null \<Rightarrow> Inr ''null''
      | _ \<Rightarrow> Inl LibraryError)"

definition sample_toLocaleString :: "jsval \<Rightarrow> error + string" where
  "sample_toLocaleString v =
     (case v of
        Str s \<Rightarrow> Inr s
      | Num n \<Rightarrow> if n = 1234 then Inr ''1,234'' else Inl LibraryError
      | _ \<Rightarrow> Inl LibraryError)"

definition sample_platform :: "error + jsval \<Rightarrow> document \<Rightarrow> platform" where
  "sample_platform reply doc =
     \<lparr>axios_get = (\<lambda>u. reply), cheerio_load = (\<lambda>d. Inr doc),
      encodeURIComponent = sample_encode, toLocaleString = sample_toLocaleString,
      toString = sample_toString\<rparr>"

text \<open>A document in which no selector matches anything.\<close>

definition blank_page :: document where
  "blank_page = (\<lambda>selector. empty_selection)"

text \<open>
  A watch page with one download link,
  \<^verbatim>\<open><a class="pure-button pure-button-primary" href="/latest_version?id=abc">Download 720p</a>\<close>,
  and a title.
\<close>

definition download_link :: selection where
  "download_link =
     Selection 1 ''Download 720p''
       (\<lambda>name. if name = Str ''href'' then Str ''/latest_version?id=abc'' else Undefined) [] []"

definition watch_page :: document where
  "watch_page =
     (\<lambda>selector.
        if selector = Str ''a.pure-button.pure-button-primary''
        then Selection 1 ''Download 720p''
               (\<lambda>name. if name = Str ''href'' then Str ''/latest_version?id=abc'' else Undefined)
               [] [download_link]
        else if selector = Str ''.video-title''
        then Selection 1 ''A video'' (\<lambda>name. Undefined) [] []
        else empty_selection)"

text \<open>Two items of a JSON search reply: a video without \<^verbatim>\<open>videoId\<close>, and a channel.\<close>

definition video_without_id :: jsval where
  "video_without_id = Obj [(''type'', Str ''video''), (''title'', Str ''Lofi'')]"

definition channel_item :: jsval where
  "channel_item = Obj [(''type'', Str ''channel''), (''author'', Str ''Somebody'')]"

definition full_video :: jsval where
  "full_video =
     Obj [(''type'', Str ''video''), (''title'', Str ''Lofi''), (''videoId'', Str ''abc''),
          (''videoThumbnails'', Arr [Obj [(''url'', Str ''/vi/abc/1.jpg'')]]),
          (''author'', Str ''Somebody''), (''viewCount'', Num 1234),
          (''publishedText'', Str ''3 weeks ago'')]"

text \<open>
  A popular page with two list entries: the first holds a link to \<^verbatim>\<open>/watch?v=abc\<close>, the
  second holds no link at all.
\<close>

definition entry_link :: selection where
  "entry_link =
     Selection 1 ''Lofi mix''
       (\<lambda>name. if name = Str ''href'' then Str ''/watch?v=abc'' else Undefined) [] []"

definition entry_with_video :: selection where
  "entry_with_video =
     Selection 1 ''Lofi mix Somebody'' (\<lambda>name. Undefined) [(''h3 a'', entry_link)] []"

definition entry_without_link :: selection where
  "entry_without_link = Selection 1 ''Sponsored'' (\<lambda>name. Undefined) [] []"

definition popular_page :: document where
  "popular_page =
     (\<lambda>selector.
        if selector = Str ''.pure-g.loop > .pure-u-1''
        then Selection 2 ''Lofi mix SomebodySponsored'' (\<lambda>name. Undefined) []
               [entry_with_video, entry_without_link]
        else empty_selection)"


text \<open>
  Two more items of a JSON search reply: a video that has only the \<^verbatim>\<open>thumbnail\<close> field,
  already absolute, and a view count of zero; and a video whose \<^verbatim>\<open>thumbnail\<close> is a number.
\<close>

definition thumb_only_video :: jsval where
  "thumb_only_video =
     Obj [(''type'', Str ''video''), (''title'', Str ''Jazz''), (''videoId'', Str ''xyz''),
          (''thumbnail'', Str ''https://i.ytimg.com/vi/xyz/1.jpg''), (''viewCount'', Num 0)]"

definition bad_thumbnail_video :: jsval where
  "bad_thumbnail_video = Obj [(''type'', Str ''video''), (''thumbnail'', Num 5)]"

section \<open>The structured mapping as the specification words it\<close>


text \<open>An item of a known video type.\<close>

definition is_video :: "jsval \<Rightarrow> bool" where
  "is_video item = (get_prop item ''type'' = Str ''video'')"

text \<open>
  The value the thumbnail is taken from: the \<^verbatim>\<open>url\<close> of the first entry of
  \<^verbatim>\<open>videoThumbnails\<close> when that entry is an object with a truthy \<^verbatim>\<open>url\<close>, otherwise the
  field \<^verbatim>\<open>thumbnail\<close>.
\<close>

definition thumbnail_source :: "jsval \<Rightarrow> jsval" where
  "thumbnail_source item =
     (let first = (case get_prop item ''videoThumbnails'' of
                     Arr (x # xs) \<Rightarrow> x
                   | Obj kvs \<Rightarrow> get_prop (Obj kvs) ''0''
                   | _ \<Rightarrow> Undefined);
          u = (case first of Obj kvs \<Rightarrow> get_prop (Obj kvs) ''url'' | _ \<Rightarrow> Undefined)
      in if truthy u then u else get_prop item ''thumbnail'')"

text \<open>The absolute URL of a non-empty path on the instance.\<close>

definition absolute_of :: "string \<Rightarrow> string \<Rightarrow> string" where
  "absolute_of inst p =
     (if prefix ''http://'' p \<or> prefix ''https://'' p then p
      else if prefix ''/'' p then inst @ p
      else inst @ ''/'' @ p)"

text \<open>
  The summary of a video item, field by field (specification, sections 3 and 4.2): title,
  videoId and author under their own names, \<^verbatim>\<open>uploadedAt\<close> from \<^verbatim>\<open>publishedText\<close>, the
  thumbnail made absolute or null, the views as text or null, and the watch URL on the
  instance. It is written without reference to \<open>search_item\<close>, to be compared with it.
\<close>

definition spec_summary :: "string \<Rightarrow> platform \<Rightarrow> jsval \<Rightarrow> video_summary" where
  "spec_summary inst plat item =
     \<lparr>title = get_prop item ''title'',
      videoId = get_prop item ''videoId'',
      thumbnail = (case thumbnail_source item of
                     Str p \<Rightarrow> if p = [] then Null else Str (absolute_of inst p)
                   | _ \<Rightarrow> Null),
      author = get_prop item ''author'',
      views = (if truthy (get_prop item ''viewCount'')
               then (case toLocaleString plat (get_prop item ''viewCount'') of
                       Inr n \<Rightarrow> Str (n @ '' views'') | Inl e \<Rightarrow> Null)
               else Null),
      uploadedAt = get_prop item ''publishedText'',
      url = (case toString plat (get_prop item ''videoId'') of
               Inr s \<Rightarrow> Str (inst @ ''/watch?v='' @ s) | Inl e \<Rightarrow> Null)\<rparr>"

text \<open>
  The items the extraction can process: not \<^verbatim>\<open>null\<close>, and, for a video, a thumbnail source
  that is a string or falsy, a view count the host can print and a \<^verbatim>\<open>videoId\<close> the host can
  interpolate.
\<close>

definition extractable :: "platform \<Rightarrow> jsval \<Rightarrow> bool" where
  "extractable plat item =
     (item \<noteq> Undefined \<and> item \<noteq> Null \<and>
      (if is_video item
       then (case thumbnail_source item of Str p \<Rightarrow> True | t \<Rightarrow> \<not> truthy t)
          \<and> (if truthy (get_prop item ''viewCount'')
              then (case toLocaleString plat (get_prop item ''viewCount'') of
                      Inr n \<Rightarrow> True | Inl e \<Rightarrow> False)
              else True)
          \<and> (case toString plat (get_prop item ''videoId'') of
                Inr s \<Rightarrow> True | Inl e \<Rightarrow> False)
       else True))"

section \<open>Absolute URLs\<close>

lemma getAbsoluteUrl_absolute:
  "startsWith p ''http://'' \<or> startsWith p ''https://'' \<Longrightarrow>
     getAbsoluteUrl inst (Str p) = Inr (Str p)"
  by (auto simp: startsWith_def)

lemma getAbsoluteUrl_relative:
  "p \<noteq> [] \<Longrightarrow> \<not> startsWith p ''http://'' \<Longrightarrow> \<not> startsWith p ''https://'' \<Longrightarrow>
     getAbsoluteUrl inst (Str p)
       = Inr (Str (inst @ (if startsWith p ''/'' then [] else ''/'') @ p))"
  by simp

text \<open>
  C10. For every falsy input, among them \<^verbatim>\<open>null\<close>, \<^verbatim>\<open>undefined\<close> and the empty string,
  \<^verbatim>\<open>getAbsoluteUrl\<close> returns \<^verbatim>\<open>null\<close>: it neither raises nor builds a string.
\<close>

theorem getAbsoluteUrl_falsy:
  "(\<not> truthy path \<longrightarrow> getAbsoluteUrl inst path = Inr Null)
   \<and> getAbsoluteUrl inst Null = Inr Null
   \<and> getAbsoluteUrl inst Undefined = Inr Null
   \<and> getAbsoluteUrl inst (Str []) = Inr Null"
  by simp

theorem getAbsoluteUrl_falsy_witness:
  "\<not> truthy (Str []) \<and> getAbsoluteUrl ''https://lekker.gay'' (Str []) = Inr Null"
  using getAbsoluteUrl_falsy [of "Str []" "''https://lekker.gay''"] by simp

text \<open>
  C2, as stated, fails: a relative path that begins with two slashes keeps both, so the join
  has two slashes at the boundary and nothing is deduplicated.
\<close>

theorem getAbsoluteUrl_double_slash_counterexample:
  "getAbsoluteUrl ''https://lekker.gay'' (Str ''//a'') = Inr (Str ''https://lekker.gay//a'')"
  by (simp add: startsWith_def)

text \<open>
  C2, amended. A string that starts with \<^verbatim>\<open>http://\<close> or \<^verbatim>\<open>https://\<close> is returned
  unchanged, so applying the function twice equals applying it once. For a non-empty relative
  path that does not begin with two slashes the result is the instance origin, one slash, and
  the path without its leading slash if it had one: a slash is added when the path lacks one
  and none is ever removed.
\<close>

theorem getAbsoluteUrl_idempotent_join:
  "(startsWith p ''http://'' \<or> startsWith p ''https://'' \<longrightarrow>
      getAbsoluteUrl inst (Str p) = Inr (Str p)
      \<and> bindE (getAbsoluteUrl inst (Str p)) (getAbsoluteUrl inst) = getAbsoluteUrl inst (Str p))
   \<and> (p \<noteq> [] \<and> \<not> startsWith p ''http://'' \<and> \<not> startsWith p ''https://''
        \<and> \<not> startsWith p ''//'' \<longrightarrow>
      (\<exists>rest. getAbsoluteUrl inst (Str p) = Inr (Str (inst @ ''/'' @ rest))
          \<and> \<not> startsWith rest ''/'' \<and> (p = rest \<or> p = ''/'' @ rest)))"
proof (intro conjI impI)
  assume a: "startsWith p ''http://'' \<or> startsWith p ''https://''"
  then show "getAbsoluteUrl inst (Str p) = Inr (Str p)"
    by (rule getAbsoluteUrl_absolute)
  then show "bindE (getAbsoluteUrl inst (Str p)) (getAbsoluteUrl inst)
               = getAbsoluteUrl inst (Str p)"
    by (simp add: bindE_def)
next
  assume r: "p \<noteq> [] \<and> \<not> startsWith p ''http://'' \<and> \<not> startsWith p ''https://''
               \<and> \<not> startsWith p ''//''"
  then obtain c cs where p: "p = c # cs" by (cases p) auto
  show "\<exists>rest. getAbsoluteUrl inst (Str p) = Inr (Str (inst @ ''/'' @ rest))
          \<and> \<not> startsWith rest ''/'' \<and> (p = rest \<or> p = ''/'' @ rest)"
  proof (cases "c = CHR ''/''")
    case True
    with r p have "\<not> startsWith cs ''/''" by (simp add: startsWith_def)
    moreover from r p True have "getAbsoluteUrl inst (Str p) = Inr (Str (inst @ ''/'' @ cs))"
      by (simp add: startsWith_def)
    ultimately show ?thesis using p True by auto
  next
    case False
    with p have "\<not> startsWith p ''/''" by (simp add: startsWith_def)
    moreover from this r have "getAbsoluteUrl inst (Str p) = Inr (Str (inst @ ''/'' @ p))"
      by simp
    ultimately show ?thesis by auto
  qed
qed

theorem getAbsoluteUrl_idempotent_join_witness:
  "getAbsoluteUrl ''https://lekker.gay'' (Str ''https://i.ytimg.com/a.jpg'')
     = Inr (Str ''https://i.ytimg.com/a.jpg'')
   \<and> (\<exists>rest. getAbsoluteUrl ''https://lekker.gay'' (Str ''/watch?v=abc'')
                 = Inr (Str (''https://lekker.gay'' @ ''/'' @ rest))
          \<and> \<not> startsWith rest ''/'')"
proof -
  have a: "startsWith ''https://i.ytimg.com/a.jpg'' ''http://''
             \<or> startsWith ''https://i.ytimg.com/a.jpg'' ''https://''"
    by (simp add: startsWith_def)
  have r: "''/watch?v=abc'' \<noteq> [] \<and> \<not> startsWith ''/watch?v=abc'' ''http://''
             \<and> \<not> startsWith ''/watch?v=abc'' ''https://'' \<and> \<not> startsWith ''/watch?v=abc'' ''//''"
    by (simp add: startsWith_def)
  from getAbsoluteUrl_idempotent_join [of "''https://i.ytimg.com/a.jpg''" "''https://lekker.gay''"] a
  have "getAbsoluteUrl ''https://lekker.gay'' (Str ''https://i.ytimg.com/a.jpg'')
          = Inr (Str ''https://i.ytimg.com/a.jpg'')"
    by blast
  moreover from getAbsoluteUrl_idempotent_join [of "''/watch?v=abc''" "''https://lekker.gay''"] r
  have "\<exists>rest. getAbsoluteUrl ''https://lekker.gay'' (Str ''/watch?v=abc'')
                 = Inr (Str (''https://lekker.gay'' @ ''/'' @ rest))
          \<and> \<not> startsWith rest ''/''"
    by blast
  ultimately show ?thesis by blast
qed

text \<open>
  C4, as stated, fails twice. The empty string is a path string without a scheme, and it is
  answered with \<^verbatim>\<open>null\<close>, not with the origin. A path with a scheme other than
  \<^verbatim>\<open>http\<close> or \<^verbatim>\<open>https\<close> is prefixed with the origin.
\<close>

theorem getAbsoluteUrl_prefix_counterexample:
  "getAbsoluteUrl ''https://lekker.gay'' (Str []) = Inr Null
   \<and> getAbsoluteUrl ''https://lekker.gay'' (Str ''ftp://h/f'')
       = Inr (Str ''https://lekker.gay/ftp://h/f'')"
  by (simp add: startsWith_def)

text \<open>
  C4, amended. For every non-empty path string, \<^verbatim>\<open>getAbsoluteUrl\<close> returns the path itself,
  without the origin, when it starts with \<^verbatim>\<open>http://\<close> or \<^verbatim>\<open>https://\<close>, and otherwise a
  string that begins with the instance origin and ends with the path.
\<close>

theorem getAbsoluteUrl_prefixes_origin:
  "p \<noteq> [] \<Longrightarrow>
     (if startsWith p ''http://'' \<or> startsWith p ''https://''
      then getAbsoluteUrl inst (Str p) = Inr (Str p)
      else \<exists>r. getAbsoluteUrl inst (Str p) = Inr (Str r) \<and> prefix inst r \<and> suffix p r)"
  by (auto simp: startsWith_def suffix_def)

theorem getAbsoluteUrl_prefixes_origin_witness:
  "''feed/popular'' \<noteq> []
   \<and> (\<exists>r. getAbsoluteUrl ''https://lekker.gay'' (Str ''feed/popular'') = Inr (Str r)
         \<and> prefix ''https://lekker.gay'' r \<and> suffix ''feed/popular'' r)"
proof -
  have n: "''feed/popular'' \<noteq> []" by simp
  have "\<not> (startsWith ''feed/popular'' ''http://'' \<or> startsWith ''feed/popular'' ''https://'')"
    by (simp add: startsWith_def)
  with getAbsoluteUrl_prefixes_origin [OF n, of "''https://lekker.gay''"] n
  show ?thesis by presburger
qed

section \<open>Configuration\<close>

lemma INVIDIOUS_INSTANCE_unset:
  "env ''INVIDIOUS_INSTANCE'' = None \<Longrightarrow> INVIDIOUS_INSTANCE env = ''https://lekker.gay''"
  by (simp add: INVIDIOUS_INSTANCE_def)

lemma INVIDIOUS_INSTANCE_set:
  "env ''INVIDIOUS_INSTANCE'' = Some s \<Longrightarrow> s \<noteq> [] \<Longrightarrow> INVIDIOUS_INSTANCE env = s"
  by (simp add: INVIDIOUS_INSTANCE_def)

lemma PORT_unset: "env ''PORT'' = None \<Longrightarrow> PORT env = Num 3000"
  by (simp add: PORT_def js_or_def)

lemma PORT_set: "env ''PORT'' = Some s \<Longrightarrow> s \<noteq> [] \<Longrightarrow> PORT env = Str s"
  by (simp add: PORT_def js_or_def)

text \<open>
  C8. The instance of line 224 and the port follow their environment variables, as the four
  lemmas above say. The instance of line 10 does not: with the variable set to another origin
  it is still the literal, against the comment on line 9.
\<close>

theorem INVIDIOUS_INSTANCE_line10_ignores_env:
  "INVIDIOUS_INSTANCE_line10 [''INVIDIOUS_INSTANCE'' \<mapsto> ''https://inv.example'']
     = ''https://lekker.gay''
   \<and> INVIDIOUS_INSTANCE [''INVIDIOUS_INSTANCE'' \<mapsto> ''https://inv.example'']
     = ''https://inv.example''"
  by (simp add: INVIDIOUS_INSTANCE_line10_def INVIDIOUS_INSTANCE_def)

section \<open>The helpers at their call sites\<close>

lemma getAttr_selection: "getAttr (Cheerio s) selector attr = Inl TypeError"
  by (simp add: getAttr_def call_dollar_def bindE_def)

lemma getText_selection: "getText (Cheerio s) selector = Inl TypeError"
  by (simp add: getText_def call_dollar_def bindE_def)

lemma video_item_raises: "video_item inst element acc = Inl TypeError"
  by (simp add: video_item_def getAttr_selection bindE_def)

lemma comment_item_raises: "comment_item element acc = Inl TypeError"
  by (simp add: comment_item_def getText_selection bindE_def)

lemma format_item_raises: "format_item inst element acc = Inl TypeError"
  by (simp add: format_item_def getAttr_selection bindE_def)

lemma each_raises:
  "\<forall>x acc. f x acc = Inl e \<Longrightarrow> each f xs acc = (if xs = [] then Inr acc else Inl e)"
  by (cases xs) simp_all

lemma video_list_eq:
  "video_list inst doc
     = (if sel_each (doc (Str ''.pure-g.loop > .pure-u-1'')) = [] then Inr [] else Inl TypeError)"
  by (simp add: video_list_def each_raises video_item_raises)

lemma comments_eq:
  "comments doc
     = (if sel_each (doc (Str ''.comment-wrapper'')) = [] then Inr [] else Inl TypeError)"
  by (simp add: comments_def each_raises comment_item_raises)

lemma videoInfo_raises: "videoInfo inst doc watch = Inl TypeError"
  by (simp add: videoInfo_def each_raises format_item_raises bindE_def getText_selection)

section \<open>What each handler answers\<close>

text \<open>
  The response of each handler, step by step: a step that raises ends in the 500 of the
  route, and when every step completes the value extracted is sent with status 200.
\<close>

lemma api_popular_eq:
  "fst (api_popular inst plat) =
     (case axios_get plat (inst @ ''/feed/popular'') of
        Inl e \<Rightarrow> \<lparr>status = 500, body = JsonError ''Failed to fetch popular videos''\<rparr>
      | Inr data \<Rightarrow>
          (case cheerio_load plat data of
             Inl e \<Rightarrow> \<lparr>status = 500, body = JsonError ''Failed to fetch popular videos''\<rparr>
           | Inr doc \<Rightarrow>
               (case video_list inst doc of
                  Inl e \<Rightarrow> \<lparr>status = 500, body = JsonError ''Failed to fetch popular videos''\<rparr>
                | Inr out \<Rightarrow> \<lparr>status = 200, body = JsonSummaries out\<rparr>)))"
  by (simp add: api_popular_def Let_def try_catch_def fetch_document_def bindE_def
           split: sum.splits)

lemma api_search_eq:
  "truthy q \<Longrightarrow>
   fst (api_search inst plat q) =
     (case encodeURIComponent plat q of
        Inl e \<Rightarrow> \<lparr>status = 500, body = JsonError ''Failed to fetch search results''\<rparr>
      | Inr enc \<Rightarrow>
          (case axios_get plat (inst @ ''/search?q='' @ enc) of
             Inl e \<Rightarrow> \<lparr>status = 500, body = JsonError ''Failed to fetch search results''\<rparr>
           | Inr data \<Rightarrow>
               (case cheerio_load plat data of
                  Inl e \<Rightarrow> \<lparr>status = 500, body = JsonError ''Failed to fetch search results''\<rparr>
                | Inr doc \<Rightarrow>
                    (case video_list inst doc of
                       Inl e \<Rightarrow>
                         \<lparr>status = 500, body = JsonError ''Failed to fetch search results''\<rparr>
                     | Inr out \<Rightarrow> \<lparr>status = 200, body = JsonSummaries out\<rparr>))))"
  by (simp add: api_search_def Let_def try_catch_def fetch_document_def bindE_def
           split: sum.splits)


lemma api_video_eq:
  "truthy vid \<Longrightarrow>
   fst (api_video inst plat vid) =
     (case encodeURIComponent plat vid of
        Inl e \<Rightarrow> \<lparr>status = 500, body = JsonError ''Failed to fetch video information''\<rparr>
      | Inr enc \<Rightarrow>
          (case axios_get plat (inst @ ''/watch?v='' @ enc) of
             Inl e \<Rightarrow> \<lparr>status = 500, body = JsonError ''Failed to fetch video information''\<rparr>
           | Inr data \<Rightarrow>
               (case cheerio_load plat data of
                  Inl e \<Rightarrow>
                    \<lparr>status = 500, body = JsonError ''Failed to fetch video information''\<rparr>
                | Inr doc \<Rightarrow>
                    (case videoInfo inst doc (inst @ ''/watch?v='' @ enc) of
                       Inl e \<Rightarrow>
                         \<lparr>status = 500, body = JsonError ''Failed to fetch video information''\<rparr>
                     | Inr info \<Rightarrow> \<lparr>status = 200, body = JsonInfo info\<rparr>))))"
  by (simp add: api_video_def Let_def try_catch_def fetch_document_def bindE_def
           split: sum.splits)

lemma api_comments_eq:
  "truthy vid \<Longrightarrow>
   fst (api_comments inst plat vid) =
     (case encodeURIComponent plat vid of
        Inl e \<Rightarrow> \<lparr>status = 500, body = JsonError ''Failed to fetch comments''\<rparr>
      | Inr enc \<Rightarrow>
          (case axios_get plat (inst @ ''/comments/'' @ enc) of
             Inl e \<Rightarrow> \<lparr>status = 500, body = JsonError ''Failed to fetch comments''\<rparr>
           | Inr data \<Rightarrow>
               (case cheerio_load plat data of
                  Inl e \<Rightarrow> \<lparr>status = 500, body = JsonError ''Failed to fetch comments''\<rparr>
                | Inr doc \<Rightarrow>
                    (case comments doc of
                       Inl e \<Rightarrow> \<lparr>status = 500, body = JsonError ''Failed to fetch comments''\<rparr>
                     | Inr out \<Rightarrow> \<lparr>status = 200, body = JsonComments out\<rparr>))))"
  by (simp add: api_comments_def Let_def try_catch_def fetch_document_def bindE_def
           split: sum.splits)

lemma api_video_answer:
  "(if \<not> truthy vid
    then api_video inst plat vid
           = (\<lparr>status = 400, body = JsonError ''Video ID is required.''\<rparr>, [])
    else fst (api_video inst plat vid)
           = \<lparr>status = 500, body = JsonError ''Failed to fetch video information''\<rparr>)"
proof (cases "truthy vid")
  case True
  then show ?thesis by (simp add: api_video_eq videoInfo_raises split: sum.splits)
next
  case False
  then show ?thesis by (simp add: api_video_def)
qed

section \<open>List endpoints\<close>

lemma popular_200_is_empty:
  "status (fst (api_popular inst plat)) = 200 \<Longrightarrow>
     body (fst (api_popular inst plat)) = JsonSummaries []"
  by (auto simp: api_popular_eq video_list_eq split: sum.splits if_splits)

lemma markup_search_200_is_empty:
  "status (fst (api_search inst plat q)) = 200 \<Longrightarrow>
     body (fst (api_search inst plat q)) = JsonSummaries []"
proof (cases "truthy q")
  case True
  assume "status (fst (api_search inst plat q)) = 200"
  with True show ?thesis
    by (auto simp: api_search_eq video_list_eq split: sum.splits if_splits)
next
  case False
  assume "status (fst (api_search inst plat q)) = 200"
  with False show ?thesis by (simp add: api_search_def)
qed

lemma comments_200_is_empty:
  "status (fst (api_comments inst plat vid)) = 200 \<Longrightarrow>
     body (fst (api_comments inst plat vid)) = JsonComments []"
proof (cases "truthy vid")
  case True
  assume "status (fst (api_comments inst plat vid)) = 200"
  with True show ?thesis
    by (auto simp: api_comments_eq comments_eq split: sum.splits if_splits)
next
  case False
  assume "status (fst (api_comments inst plat vid)) = 200"
  with False show ?thesis by (simp add: api_comments_def)
qed

text \<open>
  C1. The popular page has two source items; the first has the identifying link
  \<^verbatim>\<open>/watch?v=abc\<close>, from which line 265 means to take the \<^verbatim>\<open>videoId\<close>
  \<^verbatim>\<open>abc\<close>, and the second has none and is meant to be skipped (line 266). The handler
  answers 500 instead of the one-item array: \<^verbatim>\<open>getAttr($(element).find('h3 a'), 'href')\<close>
  passes the selection where the helper expects the document function, and the call raises
  on the first item.
\<close>

theorem api_popular_on_popular_page:
  "fst (api_popular ''https://lekker.gay''
          (sample_platform (Inr (Str ''<html></html>'')) popular_page))
     = \<lparr>status = 500, body = JsonError ''Failed to fetch popular videos''\<rparr>
   \<and> sel_each (popular_page (Str ''.pure-g.loop > .pure-u-1''))
       = [entry_with_video, entry_without_link]
   \<and> sel_attr (sel_find entry_with_video ''h3 a'') (Str ''href'') = Str ''/watch?v=abc''
   \<and> href_video_id (Str ''/watch?v=abc'') = Inr (Str ''abc'')
   \<and> getAttr (Cheerio (sel_find entry_with_video ''h3 a'')) (Str ''href'') Undefined
       = Inl TypeError"
  by (simp add: api_popular_def try_catch_def fetch_document_def video_list_def video_item_def
        getAttr_def call_dollar_def bindE_def sample_platform_def popular_page_def
        entry_with_video_def entry_link_def sel_find_def href_video_id_def at_index_def
        str_split_def)

section \<open>Structured extraction\<close>

lemma thumbnail_source_eq:
  "js_or (first_thumbnail_url item) (get_prop item ''thumbnail'') = thumbnail_source item"
proof -
  have "first_thumbnail_url item
          = (case (case get_prop item ''videoThumbnails'' of
                     Arr (x # xs) \<Rightarrow> x
                   | Obj kvs \<Rightarrow> get_prop (Obj kvs) ''0''
                   | _ \<Rightarrow> Undefined) of
               Obj kvs \<Rightarrow> get_prop (Obj kvs) ''url'' | _ \<Rightarrow> Undefined)"
    by (cases "get_prop item ''videoThumbnails''")
       (auto simp: first_thumbnail_url_def index0_def nullish_def Let_def get_prop_def
             split: list.splits jsval.splits option.splits)
  then show ?thesis by (simp add: js_or_def thumbnail_source_def Let_def)
qed

lemma getAbsoluteUrl_cases:
  "getAbsoluteUrl inst t =
     (case t of
        Str p \<Rightarrow> if p = [] then Inr Null else Inr (Str (absolute_of inst p))
      | _ \<Rightarrow> if truthy t then Inl TypeError else Inr Null)"
  by (cases t) (auto simp: startsWith_def absolute_of_def)

lemma getAbsoluteUrl_watch:
  "getAbsoluteUrl inst (Str (''/watch?v='' @ s)) = Inr (Str (inst @ ''/watch?v='' @ s))"
  by (simp add: startsWith_def)

lemma search_item_other:
  "item \<noteq> Undefined \<Longrightarrow> item \<noteq> Null \<Longrightarrow> \<not> is_video item \<Longrightarrow>
     search_item inst plat item = Inr None"
  by (simp add: search_item_def nullish_def is_video_def)

lemma search_item_video:
  assumes "item \<noteq> Undefined" "item \<noteq> Null" "is_video item"
  shows "search_item inst plat item =
     bindE (getAbsoluteUrl inst (thumbnail_source item)) (\<lambda>th.
     bindE (if truthy (get_prop item ''viewCount'')
            then bindE (toLocaleString plat (get_prop item ''viewCount''))
                   (\<lambda>n. Inr (Str (n @ '' views'')))
            else Inr Null) (\<lambda>v.
     bindE (toString plat (get_prop item ''videoId'')) (\<lambda>vid.
       Inr (Some \<lparr>title = get_prop item ''title'', videoId = get_prop item ''videoId'',
                   thumbnail = th, author = get_prop item ''author'', views = v,
                   uploadedAt = get_prop item ''publishedText'',
                   url = Str (inst @ ''/watch?v='' @ vid)\<rparr>))))"
  using assms
  by (simp add: search_item_def nullish_def is_video_def thumbnail_source_eq
        getAbsoluteUrl_watch bindE_def
        del: getAbsoluteUrl.simps append.simps)

lemma search_item_extractable:
  assumes "extractable plat item"
  shows "search_item inst plat item
           = Inr (if is_video item then Some (spec_summary inst plat item) else None)"
proof (cases "is_video item")
  case False
  with assms show ?thesis by (simp add: extractable_def search_item_other)
next
  case True
  from assms have n: "item \<noteq> Undefined" "item \<noteq> Null" by (simp_all add: extractable_def)
  from assms True have
    th: "case thumbnail_source item of Str p \<Rightarrow> True | t \<Rightarrow> \<not> truthy t" and
    vw: "if truthy (get_prop item ''viewCount'')
         then (case toLocaleString plat (get_prop item ''viewCount'') of
                 Inr n \<Rightarrow> True | Inl e \<Rightarrow> False)
         else True" and
    id: "case toString plat (get_prop item ''videoId'') of Inr s \<Rightarrow> True | Inl e \<Rightarrow> False"
    by (simp_all add: extractable_def)
  from th have a: "getAbsoluteUrl inst (thumbnail_source item)
      = Inr (case thumbnail_source item of
               Str p \<Rightarrow> if p = [] then Null else Str (absolute_of inst p)
             | _ \<Rightarrow> Null)"
    by (cases "thumbnail_source item")
       (simp_all add: getAbsoluteUrl_cases del: getAbsoluteUrl.simps)
  from id obtain s where s: "toString plat (get_prop item ''videoId'') = Inr s"
    by (cases "toString plat (get_prop item ''videoId'')") simp_all
  show ?thesis
  proof (cases "truthy (get_prop item ''viewCount'')")
    case False
    with True a s show ?thesis
      by (simp add: search_item_video [OF n True] spec_summary_def bindE_def
               del: getAbsoluteUrl.simps)
  next
    case t: True
    with vw obtain n' where "toLocaleString plat (get_prop item ''viewCount'') = Inr n'"
      by (cases "toLocaleString plat (get_prop item ''viewCount'')") simp_all
    with True a s t show ?thesis
      by (simp add: search_item_video [OF n True] spec_summary_def bindE_def
               del: getAbsoluteUrl.simps)
  qed
qed

lemma search_item_not_extractable:
  assumes "\<not> extractable plat item"
  shows "\<exists>e. search_item inst plat item = Inl e"
proof (cases "item = Undefined \<or> item = Null")
  case True
  then show ?thesis by (auto simp: search_item_def nullish_def)
next
  case False
  then have n: "item \<noteq> Undefined" "item \<noteq> Null" by simp_all
  with assms have v: "is_video item" by (auto simp: extractable_def split: if_splits)
  show ?thesis
  proof (cases "getAbsoluteUrl inst (thumbnail_source item)")
    case (Inl e)
    then show ?thesis by (simp add: search_item_video [OF n v] bindE_def del: getAbsoluteUrl.simps)
  next
    case (Inr th)
    then have th: "case thumbnail_source item of Str p \<Rightarrow> True | t \<Rightarrow> \<not> truthy t"
      by (cases "thumbnail_source item")
         (simp_all add: getAbsoluteUrl_cases del: getAbsoluteUrl.simps split: if_splits)
    show ?thesis
    proof (cases "truthy (get_prop item ''viewCount'')")
      case t: True
      show ?thesis
      proof (cases "toLocaleString plat (get_prop item ''viewCount'')")
        case (Inl e)
        with Inr t show ?thesis
          by (simp add: search_item_video [OF n v] bindE_def del: getAbsoluteUrl.simps)
      next
        case r: (Inr n')
        with assms n v th t
        obtain e where "toString plat (get_prop item ''videoId'') = Inl e"
          by (cases "toString plat (get_prop item ''videoId'')") (auto simp: extractable_def)
        with Inr t r show ?thesis
          by (simp add: search_item_video [OF n v] bindE_def del: getAbsoluteUrl.simps)
      qed
    next
      case f: False
      with assms n v th
      obtain e where "toString plat (get_prop item ''videoId'') = Inl e"
        by (cases "toString plat (get_prop item ''videoId'')") (auto simp: extractable_def)
      with Inr f show ?thesis
        by (simp add: search_item_video [OF n v] bindE_def del: getAbsoluteUrl.simps)
    qed
  qed
qed

lemma mapE_all:
  "list_all (\<lambda>x. f x = Inr (g x)) xs \<Longrightarrow> mapE f xs = Inr (map g xs)"
  by (induction xs) simp_all

lemma mapE_some_raise:
  "\<not> list_all (\<lambda>x. \<exists>y. f x = Inr y) xs \<Longrightarrow> \<exists>e. mapE f xs = Inl e"
proof (induction xs)
  case Nil
  then show ?case by simp
next
  case (Cons x xs)
  show ?case
  proof (cases "f x")
    case (Inl e)
    then show ?thesis by simp
  next
    case (Inr y)
    with Cons.prems have "\<not> list_all (\<lambda>x. \<exists>y. f x = Inr y) xs" by simp
    from Cons.IH [OF this] obtain e where "mapE f xs = Inl e" ..
    with Inr show ?thesis by simp
  qed
qed

lemma kept_items:
  "map the (filter (\<lambda>item. item \<noteq> None)
              (map (\<lambda>item. if is_video item then Some (g item) else None) items))
     = map g (filter is_video items)"
  by (induction items) simp_all

lemma searchResults_extractable:
  assumes "list_all (extractable plat) items"
  shows "searchResults inst plat (Arr items)
           = Inr (map (spec_summary inst plat) (filter is_video items))"
proof -
  from assms have
    "list_all (\<lambda>item. search_item inst plat item
                 = Inr (if is_video item then Some (spec_summary inst plat item) else None))
       items"
    by (simp add: list_all_iff search_item_extractable)
  from mapE_all [OF this] show ?thesis
    by (simp add: searchResults_def bindE_def kept_items del: not_None_eq)
qed

lemma searchResults_not_extractable:
  assumes "\<not> list_all (extractable plat) items"
  shows "\<exists>e. searchResults inst plat (Arr items) = Inl e"
proof -
  from assms obtain item where i: "item \<in> set items" "\<not> extractable plat item"
    by (auto simp: list_all_iff)
  from search_item_not_extractable [OF i(2), of inst]
  obtain e where "search_item inst plat item = Inl e" ..
  then have "\<not> (\<exists>y. search_item inst plat item = Inr y)" by simp
  with i(1) have "\<not> list_all (\<lambda>x. \<exists>y. search_item inst plat x = Inr y) items"
    unfolding list_all_iff by blast
  from mapE_some_raise [OF this] show ?thesis
    by (auto simp: searchResults_def bindE_def)
qed

text \<open>
  C7, as stated, fails: for the upstream array \<^verbatim>\<open>[video, null]\<close> the known video is not
  mapped onto anything. Reading \<^verbatim>\<open>item.type\<close> of the \<^verbatim>\<open>null\<close> item raises, the
  extraction has no output, and the request is answered with 500.
\<close>

theorem searchResults_null_item_counterexample:
  "searchResults ''https://lekker.gay'' (sample_platform (Inr (Arr [full_video, Null])) blank_page)
     (Arr [full_video, Null]) = Inl TypeError
   \<and> fst (api_search_json ''https://lekker.gay''
            (sample_platform (Inr (Arr [full_video, Null])) blank_page) (Str ''lofi''))
       = \<lparr>status = 500, body = JsonError ''Failed to fetch search results from Invidious API''\<rparr>"
  by (simp add: api_search_json_def try_catch_def searchResults_def search_item_def bindE_def
        sample_platform_def sample_encode_def unreserved_def full_video_def get_prop_def
        nullish_def js_or_def first_thumbnail_url_def index0_def sample_toString_def
        sample_toLocaleString_def startsWith_def)

text \<open>
  C7, amended. In the structured search extraction, for every upstream JSON array all of
  whose items can be processed (no item is \<^verbatim>\<open>null\<close>, and every item of type
  \<^verbatim>\<open>'video'\<close> has a thumbnail source that is a string or falsy, a view count the host can
  print and a \<^verbatim>\<open>videoId\<close> the host can interpolate), the items whose type is not
  \<^verbatim>\<open>'video'\<close> are filtered out of the output entirely and the others are mapped, in order
  and field by field, onto the summary shape. For any other array the extraction raises and
  has no output.
\<close>

theorem searchResults_filters_and_maps:
  "(list_all (extractable plat) items \<longrightarrow>
      searchResults inst plat (Arr items)
        = Inr (map (spec_summary inst plat) (filter is_video items)))
   \<and> (\<not> list_all (extractable plat) items \<longrightarrow>
      (\<exists>e. searchResults inst plat (Arr items) = Inl e))"
  using searchResults_extractable [of plat items inst]
    searchResults_not_extractable [of plat items inst]
  by blast

theorem searchResults_filters_and_maps_witness:
  "list_all (extractable (sample_platform (Inr Null) blank_page))
     [full_video, channel_item, thumb_only_video, video_without_id]
   \<and> searchResults ''https://lekker.gay'' (sample_platform (Inr Null) blank_page)
       (Arr [full_video, channel_item, thumb_only_video, video_without_id])
     = Inr [\<lparr>title = Str ''Lofi'', videoId = Str ''abc'',
              thumbnail = Str ''https://lekker.gay/vi/abc/1.jpg'', author = Str ''Somebody'',
              views = Str ''1,234 views'', uploadedAt = Str ''3 weeks ago'',
              url = Str ''https://lekker.gay/watch?v=abc''\<rparr>,
            \<lparr>title = Str ''Jazz'', videoId = Str ''xyz'',
              thumbnail = Str ''https://i.ytimg.com/vi/xyz/1.jpg'', author = Undefined,
              views = Null, uploadedAt = Undefined,
              url = Str ''https://lekker.gay/watch?v=xyz''\<rparr>,
            \<lparr>title = Str ''Lofi'', videoId = Undefined, thumbnail = Null,
              author = Undefined, views = Null, uploadedAt = Undefined,
              url = Str ''https://lekker.gay/watch?v=undefined''\<rparr>]
   \<and> \<not> list_all (extractable (sample_platform (Inr Null) blank_page))
         [channel_item, bad_thumbnail_video]
   \<and> (\<exists>e. searchResults ''https://lekker.gay'' (sample_platform (Inr Null) blank_page)
             (Arr [channel_item, bad_thumbnail_video]) = Inl e)"
proof -
  have ok: "list_all (extractable (sample_platform (Inr Null) blank_page))
     [full_video, channel_item, thumb_only_video, video_without_id]"
    by (simp add: extractable_def is_video_def thumbnail_source_def get_prop_def
          full_video_def channel_item_def thumb_only_video_def video_without_id_def
          sample_platform_def sample_toString_def sample_toLocaleString_def)
  have bad: "\<not> list_all (extractable (sample_platform (Inr Null) blank_page))
         [channel_item, bad_thumbnail_video]"
    by (simp add: extractable_def is_video_def thumbnail_source_def get_prop_def
          channel_item_def bad_thumbnail_video_def)
  note t1 = searchResults_filters_and_maps
              [of "sample_platform (Inr Null) blank_page"
                  "[full_video, channel_item, thumb_only_video, video_without_id]"
                  "''https://lekker.gay''"]
  note t2 = searchResults_filters_and_maps
              [of "sample_platform (Inr Null) blank_page"
                  "[channel_item, bad_thumbnail_video]" "''https://lekker.gay''"]
  from t1 ok have "searchResults ''https://lekker.gay'' (sample_platform (Inr Null) blank_page)
       (Arr [full_video, channel_item, thumb_only_video, video_without_id])
     = Inr (map (spec_summary ''https://lekker.gay'' (sample_platform (Inr Null) blank_page))
              (filter is_video [full_video, channel_item, thumb_only_video, video_without_id]))"
    by blast
  then have a: "searchResults ''https://lekker.gay'' (sample_platform (Inr Null) blank_page)
       (Arr [full_video, channel_item, thumb_only_video, video_without_id])
     = Inr [\<lparr>title = Str ''Lofi'', videoId = Str ''abc'',
              thumbnail = Str ''https://lekker.gay/vi/abc/1.jpg'', author = Str ''Somebody'',
              views = Str ''1,234 views'', uploadedAt = Str ''3 weeks ago'',
              url = Str ''https://lekker.gay/watch?v=abc''\<rparr>,
            \<lparr>title = Str ''Jazz'', videoId = Str ''xyz'',
              thumbnail = Str ''https://i.ytimg.com/vi/xyz/1.jpg'', author = Undefined,
              views = Null, uploadedAt = Undefined,
              url = Str ''https://lekker.gay/watch?v=xyz''\<rparr>,
            \<lparr>title = Str ''Lofi'', videoId = Undefined, thumbnail = Null,
              author = Undefined, views = Null, uploadedAt = Undefined,
              url = Str ''https://lekker.gay/watch?v=undefined''\<rparr>]"
    by (simp add: spec_summary_def is_video_def thumbnail_source_def absolute_of_def
          get_prop_def full_video_def channel_item_def thumb_only_video_def
          video_without_id_def sample_platform_def sample_toString_def
          sample_toLocaleString_def)
  from t2 bad
  have b: "\<exists>e. searchResults ''https://lekker.gay'' (sample_platform (Inr Null) blank_page)
             (Arr [channel_item, bad_thumbnail_video]) = Inl e"
    by blast
  from ok a bad b show ?thesis by blast
qed

section \<open>Status codes\<close>



section \<open>The search parameter\<close>







section \<open>Video detail\<close>

lemma api_video_never_200: "status (fst (api_video inst plat vid)) \<noteq> 200"
  using api_video_answer [of vid inst plat] by (auto split: if_splits)

text \<open>
  C6. On a watch page that has a download link and a title, \<^verbatim>\<open>GET /api/video/abc\<close> is
  answered with status 500 and no \<^verbatim>\<open>formats\<close> array: \<^verbatim>\<open>getAttr($(element), 'href')\<close>
  passes the selection where the helper expects the document function, and the call of it
  raises.
\<close>

theorem api_video_on_watch_page:
  "fst (api_video ''https://lekker.gay''
          (sample_platform (Inr (Str ''<html></html>'')) watch_page) (Str ''abc''))
     = \<lparr>status = 500, body = JsonError ''Failed to fetch video information''\<rparr>
   \<and> sel_each (watch_page (Str ''a.pure-button.pure-button-primary'')) = [download_link]
   \<and> getAttr (Cheerio download_link) (Str ''href'') Undefined = Inl TypeError"
  by (simp add: api_video_def try_catch_def fetch_document_def videoInfo_def format_item_def
        getAttr_def getText_def call_dollar_def bindE_def sample_platform_def sample_encode_def
        unreserved_def watch_page_def)

section \<open>Liveness\<close>

text \<open>
  C9. \<^verbatim>\<open>GET /health\<close> is answered with status 200 and the plain body \<^verbatim>\<open>OK\<close>, whatever the
  instance and the collaborators are, and without any upstream request.
\<close>

theorem health_always_ok:
  "app inst plat GetHealth = (\<lparr>status = 200, body = Text ''OK''\<rparr>, [])
   \<and> app_first inst plat GetHealth = (\<lparr>status = 200, body = Text ''OK''\<rparr>, [])"
  by (simp add: health_def)

end
